theory Spec2Isabelle
  imports Complex_Main "HOL-Library.Word"
begin

section \<open>JavaScript values used by the upgrade logic\<close>

text \<open>
  The module \<open>labjack_t7_upgrade.js\<close> (its current version, the first one in the source
  file) is embedded function by function. JavaScript numbers that hold addresses, lengths,
  counts and 32-bit words are natural numbers here (they are exact as doubles below
  \<open>2^53\<close>). Numbers that may be fractional or \<open>NaN\<close> (firmware versions) are values of
  \<open>number\<close>, with exact rational arithmetic in place of the rounding of doubles.
\<close>

type_synonym byte = "8 word"

type_synonym buffer = "byte list"

datatype number = NaN | PosInfinity | NegInfinity | Finite rat

text \<open>Errors: thrown values, rejection reasons and the error objects of the device link.\<close>

datatype link_error = LJMError nat

datatype js_error =
    Error string
  | ErrorOf link_error
  | LinkError link_error
  | IOError string
  | TypeError
  | RangeError

text \<open>
  What a call of an exported function amounts to. \<open>Resolved\<close> and \<open>Rejected\<close>: the returned
  promise is settled. \<open>Pending\<close>: the promise is returned and never settled. \<open>Threw\<close>: an
  exception escapes (to the caller, or uncaught out of a callback) and no promise is ever
  settled. \<open>Diverged\<close>: the call does not return.
\<close>

datatype 'a outcome = Resolved 'a | Rejected js_error | Pending | Threw js_error | Diverged

text \<open>A deferred is settled once: \<open>resolve\<close> and \<open>reject\<close> on a settled deferred do nothing.\<close>

fun settle :: "'a outcome \<Rightarrow> 'a outcome \<Rightarrow> 'a outcome" where
  "settle Pending new = new"
| "settle old new = old"

subsection \<open>Strings to numbers\<close>

text \<open>
  \<open>Number(s)\<close> on a string follows the grammar \<open>StringNumericLiteral\<close> of ECMAScript 5.1
  (section 9.3.1). A \<open>char\<close> stands for a code unit below 256.
\<close>

definition isStrWhiteSpaceChar :: "char \<Rightarrow> bool" where
  "isStrWhiteSpaceChar c \<longleftrightarrow> (of_char c :: nat) \<in> set [9, 10, 11, 12, 13, 32, 160]"

definition trim :: "string \<Rightarrow> string" where
  "trim s = rev (dropWhile isStrWhiteSpaceChar (rev (dropWhile isStrWhiteSpaceChar s)))"

definition isDecimalDigit :: "char \<Rightarrow> bool" where
  "isDecimalDigit c \<longleftrightarrow> 48 \<le> (of_char c :: nat) \<and> (of_char c :: nat) \<le> 57"

definition digitValue :: "char \<Rightarrow> nat" where
  "digitValue c = of_char c - 48"

definition decimalValue :: "string \<Rightarrow> nat" where
  "decimalValue s = foldl (\<lambda>n c. 10 * n + digitValue c) 0 s"

definition isHexDigit :: "char \<Rightarrow> bool" where
  "isHexDigit c \<longleftrightarrow> isDecimalDigit c
     \<or> (65 \<le> (of_char c :: nat) \<and> (of_char c :: nat) \<le> 70)
     \<or> (97 \<le> (of_char c :: nat) \<and> (of_char c :: nat) \<le> 102)"

definition hexDigitValue :: "char \<Rightarrow> nat" where
  "hexDigitValue c =
     (if isDecimalDigit c then of_char c - 48
      else if (of_char c :: nat) \<le> 70 then of_char c - 55
      else of_char c - 87)"

definition hexValue :: "string \<Rightarrow> nat" where
  "hexValue s = foldl (\<lambda>n c. 16 * n + hexDigitValue c) 0 s"

definition isDecimalDigits :: "string \<Rightarrow> bool" where
  "isDecimalDigits s \<longleftrightarrow> s \<noteq> [] \<and> list_all isDecimalDigit s"

text \<open>\<open>SignedInteger\<close>, the digits of an exponent part.\<close>

definition signedInteger :: "string \<Rightarrow> int option" where
  "signedInteger s =
     (case s of
        [] \<Rightarrow> None
      | c # t \<Rightarrow>
          if c = CHR ''+'' then (if isDecimalDigits t then Some (int (decimalValue t)) else None)
          else if c = CHR ''-'' then (if isDecimalDigits t then Some (- int (decimalValue t)) else None)
          else (if isDecimalDigits s then Some (int (decimalValue s)) else None))"

definition scale10 :: "rat \<Rightarrow> int \<Rightarrow> rat" where
  "scale10 m e = (if 0 \<le> e then m * 10 ^ nat e else m / 10 ^ nat (- e))"

text \<open>
  \<open>StrUnsignedDecimalLiteral\<close> other than \<open>Infinity\<close>: digits, an optional fraction, an
  optional exponent part, with a digit before or after the point.
\<close>

definition strUnsignedDecimal :: "string \<Rightarrow> rat option" where
  "strUnsignedDecimal s =
     (let ip = takeWhile isDecimalDigit s;
          r1 = dropWhile isDecimalDigit s;
          fp = (case r1 of [] \<Rightarrow> [] | c # t \<Rightarrow> if c = CHR ''.'' then takeWhile isDecimalDigit t else []);
          r2 = (case r1 of [] \<Rightarrow> [] | c # t \<Rightarrow> if c = CHR ''.'' then dropWhile isDecimalDigit t else r1);
          m = of_nat (decimalValue ip) + of_nat (decimalValue fp) / 10 ^ length fp
      in if ip = [] \<and> fp = [] then None
         else (case r2 of
                 [] \<Rightarrow> Some m
               | c # t \<Rightarrow>
                   if c = CHR ''e'' \<or> c = CHR ''E'' then map_option (scale10 m) (signedInteger t)
                   else None))"

definition strDecimal :: "rat \<Rightarrow> string \<Rightarrow> number" where
  "strDecimal sign u =
     (if u = ''Infinity'' then (if 0 < sign then PosInfinity else NegInfinity)
      else (case strUnsignedDecimal u of None \<Rightarrow> NaN | Some m \<Rightarrow> Finite (sign * m)))"

definition StringToNumber :: "string \<Rightarrow> number" where
  "StringToNumber s =
     (let t = trim s in
      case t of
        [] \<Rightarrow> Finite 0
      | c # u \<Rightarrow>
          if c = CHR ''0'' \<and> u \<noteq> [] \<and> (hd u = CHR ''x'' \<or> hd u = CHR ''X'') then
            (if tl u \<noteq> [] \<and> list_all isHexDigit (tl u) then Finite (of_nat (hexValue (tl u))) else NaN)
          else if c = CHR ''+'' then strDecimal 1 u
          else if c = CHR ''-'' then strDecimal (- 1) u
          else strDecimal 1 t)"

text \<open>\<open>Number(v)\<close> for a string or \<open>undefined\<close> (\<open>None\<close>): \<open>Number(undefined)\<close> is \<open>NaN\<close>.\<close>

definition Number :: "string option \<Rightarrow> number" where
  "Number v = (case v of None \<Rightarrow> NaN | Some s \<Rightarrow> StringToNumber s)"

text \<open>\<open>x / d\<close> for a positive finite divisor \<open>d\<close>.\<close>

definition divide_by :: "number \<Rightarrow> rat \<Rightarrow> number" where
  "divide_by x d = (case x of Finite r \<Rightarrow> Finite (r / d) | other \<Rightarrow> other)"

text \<open>\<open>x == y\<close> on two numbers: \<open>NaN\<close> equals nothing, itself included.\<close>

definition number_eq :: "number \<Rightarrow> number \<Rightarrow> bool" where
  "number_eq x y \<longleftrightarrow> x \<noteq> NaN \<and> y \<noteq> NaN \<and> x = y"

text \<open>
  \<open>s == v\<close> for a string \<open>s\<close> and a number or \<open>null\<close> (\<open>None\<close>): the string is converted to a
  number; no string equals \<open>null\<close>.
\<close>

definition string_loose_eq :: "string \<Rightarrow> number option \<Rightarrow> bool" where
  "string_loose_eq s v = (case v of None \<Rightarrow> False | Some n \<Rightarrow> number_eq (StringToNumber s) n)"

text \<open>\<open>s.split(sep)\<close> for a separator of one character, and \<open>xs[i]\<close> (\<open>None\<close> is \<open>undefined\<close>).\<close>

fun split_js :: "char \<Rightarrow> string \<Rightarrow> string list" where
  "split_js sep [] = [[]]"
| "split_js sep (c # cs) =
     (if c = sep then [] # split_js sep cs
      else (case split_js sep cs of [] \<Rightarrow> [[c]] | w # ws \<Rightarrow> (c # w) # ws))"

definition index_js :: "'a list \<Rightarrow> nat \<Rightarrow> 'a option" where
  "index_js xs i = (if i < length xs then Some (xs ! i) else None)"

function string_of_nat :: "nat \<Rightarrow> string" where
  "string_of_nat n =
     (if n < 10 then [char_of (48 + n)]
      else string_of_nat (n div 10) @ [char_of (48 + n mod 10)])"
  by pat_completeness auto
termination
  by (relation "measure id") auto

declare string_of_nat.simps [simp del]

subsection \<open>The helper \<open>range\<close>\<close>

text \<open>
  \<open>range(start, stop, step)\<close>; \<open>None\<close> for an argument that is \<open>undefined\<close>. The result is
  \<open>None\<close> when the loop never ends (step 0 with \<open>start > stop\<close>).
\<close>

function range_up :: "int \<Rightarrow> int \<Rightarrow> int \<Rightarrow> int list" where
  "range_up i stop step = (if 0 < step \<and> i < stop then i # range_up (i + step) stop step else [])"
  by pat_completeness auto
termination
  by (relation "measure (\<lambda>(i, stop, step). nat (stop - i))") auto

function range_down :: "int \<Rightarrow> int \<Rightarrow> int \<Rightarrow> int list" where
  "range_down i stop step = (if step < 0 \<and> stop < i then i # range_down (i + step) stop step else [])"
  by pat_completeness auto
termination
  by (relation "measure (\<lambda>(i, stop, step). nat (i - stop))") auto

declare range_up.simps [simp del] range_down.simps [simp del]

definition range_js :: "int \<Rightarrow> int option \<Rightarrow> int option \<Rightarrow> int list option" where
  "range_js start0 stop0 step0 =
     (let start = (case stop0 of None \<Rightarrow> 0 | Some s \<Rightarrow> start0);
          stop = (case stop0 of None \<Rightarrow> start0 | Some s \<Rightarrow> s);
          step = (case step0 of None \<Rightarrow> 1 | Some s \<Rightarrow> s)
      in if (0 < step \<and> stop \<le> start) \<or> (step < 0 \<and> start \<le> stop) then Some []
         else if 0 < step then Some (range_up start stop step)
         else if step < 0 then Some (range_down start stop step)
         else if stop < start then None
         else Some [])"

section \<open>The device link and the constants of \<open>labjack-nodejs\<close>\<close>

text \<open>
  The device object of \<open>labjack-nodejs\<close> is outside this module. A call of \<open>writeMany\<close> or
  \<open>rwMany\<close> is recorded in a log, and the device answers it through exactly one of the two
  callbacks: \<open>onError\<close> with an error object, or \<open>onSuccess\<close> with the values read. A
  device is any function from the calls made so far and the present call to its answer.
\<close>

datatype direction = LJM_READ | LJM_WRITE

datatype call =
    WriteMany "nat list" "nat list"
  | RwMany "nat list" "direction list" "nat list" "nat option list"

datatype reply = OnError link_error | OnSuccess "nat list"

type_synonym device = "call list \<Rightarrow> call \<Rightarrow> reply"

text \<open>
  The constants the module reads from \<open>driver_const\<close> (of \<open>labjack-nodejs\<close>, not part of this
  repository) are parameters: the register addresses and flash regions, and the byte
  offsets of the header fields.
\<close>

record driver_const =
  T7_TARGET_OLD :: nat
  T7_TARGET :: nat
  T7_HEAD_FIRST_FOUR_BYTES :: nat
  T7_MA_EXF_KEY :: nat
  T7_MA_EXF_ERASE :: nat
  T7_MA_EXF_pREAD :: nat
  T7_MA_EXF_READ :: nat
  T7_MA_EXF_pWRITE :: nat
  T7_MA_EXF_WRITE :: nat
  T7_FLASH_PAGE_SIZE :: nat
  T7_FLASH_BLOCK_WRITE_SIZE :: nat
  T7_IMG_FLASH_PAGE_ERASE :: nat
  T7_HDR_FLASH_PAGE_ERASE :: nat
  T7_EFAdd_ExtFirmwareImage :: nat
  T7_EFkey_ExtFirmwareImage :: nat
  T7_EFAdd_ExtFirmwareImgInfo :: nat
  T7_EFkey_ExtFirmwareImgInfo :: nat

record header_const =
  HEADER_CODE :: nat
  HEADER_TARGET :: nat
  HEADER_VERSION :: nat
  HEADER_REQ_LJSU :: nat
  HEADER_IMAGE_NUM :: nat
  HEADER_NUM_IMAGES :: nat
  HEADER_NEXT_IMG :: nat
  HEADER_IMG_LEN :: nat
  HEADER_IMG_OFFSET :: nat
  HEADER_SHA_BYTE_COUNT :: nat
  HEADER_ENC_SHA1 :: nat
  HEADER_SHA1 :: nat
  HEADER_CHECKSUM :: nat

definition ALLOWED_IMAGE_INFO_DEVICE_TYPES :: "driver_const \<Rightarrow> nat list" where
  "ALLOWED_IMAGE_INFO_DEVICE_TYPES dc = [T7_TARGET_OLD dc, T7_TARGET dc]"

definition EXPECTED_ZEROED_MEM_VAL :: nat where
  "EXPECTED_ZEROED_MEM_VAL = 4294967295"

section \<open>DeviceFirmwareBundle\<close>

record image_information =
  rawImageInfo :: buffer
  headerCode :: nat
  intendedDevice :: nat
  containedVersion :: string
  requiredUpgraderVersion :: string
  imageNumber :: nat
  numImgInFile :: nat
  startNextImg :: nat
  lenOfImg :: nat
  imgOffset :: nat
  numBytesInSHA :: nat
  options :: nat
  encryptedSHA :: nat
  unencryptedSHA :: nat
  headerChecksum :: nat

text \<open>
  The private variables of a bundle; each starts as \<open>null\<close> (\<open>None\<close>). The variable
  \<open>deviceImage\<close> has no getter or setter and is left out. The device object is held as the
  function that answers its calls.
\<close>

record firmware_bundle =
  firmwareImageInformation :: "image_information option"
  firmwareImage :: "buffer option"
  device :: "device option"
  version :: "number option"
  serial :: "nat option"

definition DeviceFirmwareBundle :: firmware_bundle where
  "DeviceFirmwareBundle =
     \<lparr>firmwareImageInformation = None, firmwareImage = None, device = None,
      version = None, serial = None\<rparr>"

text \<open>
  What a promise of the module can be fulfilled with: the bundle, or an array of words read
  from flash. \<open>v.length\<close> and \<open>v[i]\<close> are \<open>undefined\<close> (\<open>None\<close>) on a bundle, which has no
  such properties.
\<close>

datatype resolved = Bundle firmware_bundle | Memory "nat list"

definition js_length :: "resolved \<Rightarrow> nat option" where
  "js_length v = (case v of Bundle b \<Rightarrow> None | Memory ws \<Rightarrow> Some (length ws))"

definition js_at :: "resolved \<Rightarrow> nat \<Rightarrow> nat option" where
  "js_at v i = (case v of Bundle b \<Rightarrow> None | Memory ws \<Rightarrow> index_js ws i)"

text \<open>The calls a stateful operation adds to the log.\<close>

definition issued :: "(call list \<Rightarrow> 'a \<times> call list) \<Rightarrow> call list \<Rightarrow> call list" where
  "issued f calls = drop (length calls) (snd (f calls))"

section \<open>checkCompatibility\<close>

definition checkCompatibility :: "driver_const \<Rightarrow> firmware_bundle \<Rightarrow> resolved outcome" where
  "checkCompatibility dc b =
     (case firmwareImageInformation b of
        None \<Rightarrow> Threw TypeError
      | Some imageInformation \<Rightarrow>
          (let expectedHeaderCode = T7_HEAD_FIRST_FOUR_BYTES dc;
               firmwareVersion = version b;
               headerCodeCorrect = (headerCode imageInformation = expectedHeaderCode);
               intendedDeviceCorrect =
                 (intendedDevice imageInformation \<in> set (ALLOWED_IMAGE_INFO_DEVICE_TYPES dc));
               versionCorrect = string_loose_eq (containedVersion imageInformation) firmwareVersion
           in if headerCodeCorrect \<and> intendedDeviceCorrect \<and> versionCorrect then Resolved (Bundle b)
              else if \<not> headerCodeCorrect then Rejected (Error ''Invalid header code.'')
              else if \<not> intendedDeviceCorrect then Rejected (Error ''Incorrect device type.'')
              else Rejected (Error ''Incorrect version.'')))"

section \<open>eraseFlash\<close>

text \<open>
  \<open>async.eachSeries\<close> over the pages: one \<open>writeMany\<close> per page, the next one only after the
  previous one succeeded; the first error ends the series.
\<close>

fun eachSeries_erase ::
  "driver_const \<Rightarrow> device \<Rightarrow> nat \<Rightarrow> nat \<Rightarrow> call list \<Rightarrow> int list \<Rightarrow> link_error option \<times> call list"
where
  "eachSeries_erase dc dev startAddress key calls [] = (None, calls)"
| "eachSeries_erase dc dev startAddress key calls (page # pages) =
     (let c = WriteMany [T7_MA_EXF_KEY dc, T7_MA_EXF_ERASE dc]
                [key, startAddress + nat page * T7_FLASH_PAGE_SIZE dc]
      in case dev calls c of
           OnError err \<Rightarrow> (Some err, calls @ [c])
         | OnSuccess vs \<Rightarrow> eachSeries_erase dc dev startAddress key (calls @ [c]) pages)"

definition eraseFlash ::
  "driver_const \<Rightarrow> firmware_bundle \<Rightarrow> nat \<Rightarrow> nat \<Rightarrow> nat \<Rightarrow> call list \<Rightarrow> resolved outcome \<times> call list"
where
  "eraseFlash dc b startAddress numPages key calls =
     (case range_js (int numPages) None None of
        None \<Rightarrow> (Diverged, calls)
      | Some pages \<Rightarrow>
          if pages = [] then (Resolved (Bundle b), calls)
          else (case device b of
                  None \<Rightarrow> (Threw TypeError, calls)
                | Some dev \<Rightarrow>
                    (case eachSeries_erase dc dev startAddress key calls pages of
                       (Some err, calls') \<Rightarrow> (Rejected (ErrorOf err), calls')
                     | (None, calls') \<Rightarrow> (Resolved (Bundle b), calls'))))"

section \<open>The flash operation engine: createFlashOperation\<close>

text \<open>
  \<open>buf.readUInt32BE(offset)\<close> throws when the four bytes are not all inside the buffer: a
  \<open>RangeError\<close> (an \<open>AssertionError\<close> in Node 0.10; the model has one constructor for
  both).
\<close>

definition uint32BE :: "buffer \<Rightarrow> nat \<Rightarrow> nat" where
  "uint32BE buf offset =
     unat (buf ! offset) * 2 ^ 24 + unat (buf ! (offset + 1)) * 2 ^ 16
       + unat (buf ! (offset + 2)) * 2 ^ 8 + unat (buf ! (offset + 3))"

definition readUInt32BE :: "buffer \<Rightarrow> nat \<Rightarrow> js_error + nat" where
  "readUInt32BE buf offset =
     (if offset + 4 \<le> length buf then Inr (uint32BE buf offset) else Inl RangeError)"

text \<open>The results of a sequence of reads, or the first exception.\<close>

fun collect :: "('e + 'a) list \<Rightarrow> 'e + 'a list" where
  "collect [] = Inr []"
| "collect (Inl e # rs) = Inl e"
| "collect (Inr x # rs) = (case collect rs of Inl e \<Rightarrow> Inl e | Inr xs \<Rightarrow> Inr (x # xs))"

definition getdata :: "buffer \<Rightarrow> nat \<Rightarrow> nat \<Rightarrow> js_error + nat list" where
  "getdata imageBuffer numIntegers offset =
     collect (map (\<lambda>i. readUInt32BE imageBuffer (i * 4 + offset)) [0..<numIntegers])"

text \<open>
  The \<open>rwMany\<close> call that the closure made by \<open>createExecution(address, innerSize,
  writeValues)\<close> issues: its addresses, directions, numValues and values. \<open>key\<close> is \<open>None\<close>
  when the caller passed none (\<open>undefined\<close>); \<open>null\<close> among the values is \<open>None\<close>.
\<close>

definition createExecution ::
  "driver_const \<Rightarrow> nat option \<Rightarrow> bool \<Rightarrow> nat \<Rightarrow> nat \<Rightarrow> nat \<Rightarrow> nat \<Rightarrow> nat list \<Rightarrow> call"
where
  "createExecution dc key isReadOp ptrAddress flashAddress address innerSize writeValues =
     RwMany
       ((case key of None \<Rightarrow> [] | Some k \<Rightarrow> [T7_MA_EXF_KEY dc]) @ [ptrAddress, flashAddress])
       ([LJM_WRITE] @ (case key of None \<Rightarrow> [] | Some k \<Rightarrow> [LJM_WRITE])
          @ [if isReadOp then LJM_READ else LJM_WRITE])
       ((case key of None \<Rightarrow> [1] | Some k \<Rightarrow> [1, 1]) @ [innerSize])
       ((case key of None \<Rightarrow> [] | Some k \<Rightarrow> [Some k]) @ [Some address]
          @ (if isReadOp then replicate innerSize None else map Some writeValues))"

text \<open>
  The loop over the full chunks, by the number of iterations left: it returns the
  executions it pushed with the final \<open>currentAddress\<close> and \<open>offset\<close>, or the exception of
  \<open>getdata\<close>. Every write chunk takes 8 words, and \<open>offset\<close> grows by 32.
\<close>

fun full_chunks ::
  "(nat \<Rightarrow> nat \<Rightarrow> nat list \<Rightarrow> call) \<Rightarrow> bool \<Rightarrow> buffer \<Rightarrow> nat \<Rightarrow> nat \<Rightarrow> nat \<Rightarrow> nat
    \<Rightarrow> js_error + call list \<times> nat \<times> nat"
where
  "full_chunks exec isReadOp data sz 0 currentAddress offset = Inr ([], currentAddress, offset)"
| "full_chunks exec isReadOp data sz (Suc n) currentAddress offset =
     (case (if isReadOp then Inr [] else getdata data 8 offset) of
        Inl e \<Rightarrow> Inl e
      | Inr writeValues \<Rightarrow>
          (case full_chunks exec isReadOp data sz n (currentAddress + sz * 4) (offset + 32) of
             Inl e \<Rightarrow> Inl e
           | Inr (ops, a, off) \<Rightarrow> Inr (exec currentAddress sz writeValues # ops, a, off)))"

definition executeOperations ::
  "driver_const \<Rightarrow> nat \<Rightarrow> nat \<Rightarrow> nat \<Rightarrow> nat \<Rightarrow> nat \<Rightarrow> bool \<Rightarrow> nat option \<Rightarrow> buffer
    \<Rightarrow> js_error + call list"
where
  "executeOperations dc startAddress lengthInts sizeInts ptrAddress flashAddress isReadOp key data =
     (let sz = sizeInts;
          numIterations = lengthInts div sz;
          remainder = lengthInts mod sz;
          shouldAugment = (0 < remainder);
          exec = createExecution dc key isReadOp ptrAddress flashAddress
      in case full_chunks exec isReadOp data sz numIterations startAddress 0 of
           Inl e \<Rightarrow> Inl e
         | Inr (ops, currentAddress, offset) \<Rightarrow>
             if shouldAugment \<and> 0 < remainder then
               (case (if isReadOp then Inr [] else getdata data remainder offset) of
                  Inl e \<Rightarrow> Inl e
                | Inr writeValues \<Rightarrow> Inr (ops @ [exec currentAddress remainder writeValues]))
             else Inr ops)"

text \<open>
  \<open>async.reduce\<close> over the executions, from the memo \<open>[]\<close>: each execution issues its call;
  on success the values read are pushed onto the memo and the next execution starts; the
  first error ends the reduction.
\<close>

fun reduce :: "device \<Rightarrow> call list \<Rightarrow> nat list \<Rightarrow> call list \<Rightarrow> (link_error + nat list) \<times> call list" where
  "reduce dev calls lastResults [] = (Inr lastResults, calls)"
| "reduce dev calls lastResults (c # cs) =
     (case dev calls c of
        OnError err \<Rightarrow> (Inl err, calls @ [c])
      | OnSuccess newResults \<Rightarrow> reduce dev (calls @ [c]) (lastResults @ newResults) cs)"

text \<open>
  With \<open>sizeInts = 0\<close> and a positive length, \<open>Math.floor(length / size)\<close> is \<open>Infinity\<close> and
  the loop never ends; with both 0 the quotient and the remainder are \<open>NaN\<close> and no
  execution is made, as with \<open>div\<close> and \<open>mod\<close> here. The executions are all built before the
  first one runs, so an exception of \<open>getdata\<close> escapes before any call. The final callback
  resolves with the bundle; the memory read is dropped.
\<close>

definition createFlashOperation ::
  "driver_const \<Rightarrow> firmware_bundle \<Rightarrow> nat \<Rightarrow> nat \<Rightarrow> nat \<Rightarrow> nat \<Rightarrow> nat \<Rightarrow> bool \<Rightarrow> nat option \<Rightarrow> buffer
    \<Rightarrow> call list \<Rightarrow> resolved outcome \<times> call list"
where
  "createFlashOperation dc b startAddress lengthInts sizeInts ptrAddress flashAddress isReadOp key
     data calls =
     (if sizeInts = 0 \<and> 0 < lengthInts then (Diverged, calls)
      else
        (case executeOperations dc startAddress lengthInts sizeInts ptrAddress flashAddress
                isReadOp key data of
           Inl e \<Rightarrow> (Threw e, calls)
         | Inr ops \<Rightarrow>
             if ops = [] then (Resolved (Bundle b), calls)
             else (case device b of
                     None \<Rightarrow> (Threw TypeError, calls)
                   | Some dev \<Rightarrow>
                       (case reduce dev calls [] ops of
                          (Inl err, calls') \<Rightarrow> (Rejected (LinkError err), calls')
                        | (Inr allMemoryRead, calls') \<Rightarrow> (Resolved (Bundle b), calls')))))"

text \<open>\<open>readFlash\<close> passes neither key nor data; \<open>writeFlash\<close> passes both.\<close>

definition readFlash ::
  "driver_const \<Rightarrow> firmware_bundle \<Rightarrow> nat \<Rightarrow> nat \<Rightarrow> nat \<Rightarrow> call list \<Rightarrow> resolved outcome \<times> call list"
where
  "readFlash dc b startAddress len sz calls =
     createFlashOperation dc b startAddress len sz (T7_MA_EXF_pREAD dc) (T7_MA_EXF_READ dc)
       True None [] calls"

definition writeFlash ::
  "driver_const \<Rightarrow> firmware_bundle \<Rightarrow> nat \<Rightarrow> nat \<Rightarrow> nat \<Rightarrow> nat option \<Rightarrow> buffer \<Rightarrow> call list
    \<Rightarrow> resolved outcome \<times> call list"
where
  "writeFlash dc b startAddress len sz key data calls =
     createFlashOperation dc b startAddress len sz (T7_MA_EXF_pWRITE dc) (T7_MA_EXF_WRITE dc)
       False key data calls"

section \<open>Reading the regions back, and the two checks\<close>

text \<open>
  \<open>readImage\<close> and \<open>readImageInformation\<close> resolve with the bundle when \<open>readFlash\<close>
  resolves, reject with its error, and let its exception through. The number of integers
  is \<open>pages * pageSize / 4\<close>, exact for a page size that is a multiple of 4.
\<close>

definition readImage :: "driver_const \<Rightarrow> firmware_bundle \<Rightarrow> call list \<Rightarrow> resolved outcome \<times> call list" where
  "readImage dc b calls =
     (let numberOfIntegers = T7_IMG_FLASH_PAGE_ERASE dc * T7_FLASH_PAGE_SIZE dc div 4
      in case readFlash dc b (T7_EFAdd_ExtFirmwareImage dc) numberOfIntegers
                (T7_FLASH_BLOCK_WRITE_SIZE dc) calls of
           (Resolved memoryContents, calls') \<Rightarrow> (Resolved (Bundle b), calls')
         | (other, calls') \<Rightarrow> (other, calls'))"

definition readImageInformation ::
  "driver_const \<Rightarrow> firmware_bundle \<Rightarrow> call list \<Rightarrow> resolved outcome \<times> call list"
where
  "readImageInformation dc b calls =
     (let numberOfIntegers = T7_HDR_FLASH_PAGE_ERASE dc * T7_FLASH_PAGE_SIZE dc div 4
      in case readFlash dc b (T7_EFAdd_ExtFirmwareImgInfo dc) numberOfIntegers
                (T7_FLASH_BLOCK_WRITE_SIZE dc) calls of
           (Resolved memoryContents, calls') \<Rightarrow> (Resolved (Bundle b), calls')
         | (other, calls') \<Rightarrow> (other, calls'))"

text \<open>
  \<open>isAllZeroed(memory)\<close>: the loop runs while \<open>i < memory.length\<close>, which is false at once
  when \<open>memory.length\<close> is \<open>undefined\<close>.
\<close>

definition isAllZeroed :: "resolved \<Rightarrow> bool" where
  "isAllZeroed memory =
     (case js_length memory of
        None \<Rightarrow> True
      | Some memoryLength \<Rightarrow>
          list_all (\<lambda>i. js_at memory i = Some EXPECTED_ZEROED_MEM_VAL) [0..<memoryLength])"

text \<open>
  \<open>checkErase\<close>. The first \<open>then\<close> runs \<open>checkIfZeroedThenContinue\<close>, which settles a deferred
  of its own and returns nothing, or hands a rejection to \<open>deferred.reject\<close>; either way the
  chain goes on to \<open>checkMemory(readImage)\<close>. There a memory that is not zeroed rejects
  \<open>deferred\<close>, a zeroed one lets the last \<open>then\<close> resolve it, and a rejected read settles
  nothing. An exception of \<open>readImage\<close> inside the handler reaches \<open>deferred.reject\<close>
  through the last \<open>then\<close>.
\<close>

definition checkErase :: "driver_const \<Rightarrow> firmware_bundle \<Rightarrow> call list \<Rightarrow> resolved outcome \<times> call list" where
  "checkErase dc b calls =
     (case readImageInformation dc b calls of
        (Threw e, calls1) \<Rightarrow> (Threw e, calls1)
      | (Diverged, calls1) \<Rightarrow> (Diverged, calls1)
      | (Pending, calls1) \<Rightarrow> (Pending, calls1)
      | (first, calls1) \<Rightarrow>
          (let deferred1 = (case first of Rejected err \<Rightarrow> Rejected err | other \<Rightarrow> Pending)
           in case readImage dc b calls1 of
                (Resolved memory, calls2) \<Rightarrow>
                  if \<not> isAllZeroed memory
                  then (settle deferred1 (Rejected (Error ''Memory not zeroed.'')), calls2)
                  else (settle deferred1 (Resolved (Bundle b)), calls2)
              | (Rejected err, calls2) \<Rightarrow> (deferred1, calls2)
              | (Pending, calls2) \<Rightarrow> (deferred1, calls2)
              | (Threw e, calls2) \<Rightarrow> (settle deferred1 (Rejected e), calls2)
              | (Diverged, calls2) \<Rightarrow> (Diverged, calls2)))"

text \<open>
  \<open>checkImageWrite\<close>: the loop compares \<open>bundleImage[i]\<close>, a byte of the buffer or
  \<open>undefined\<close>, with \<open>readImage[i]\<close> for \<open>i < readImage.length\<close>; the first mismatch
  rejects, and later calls of \<open>reject\<close> and \<open>resolve\<close> do nothing. With no image in the
  bundle the first comparison throws inside the handler and \<open>deferred\<close> stays pending.
\<close>

definition checkImageWrite ::
  "driver_const \<Rightarrow> firmware_bundle \<Rightarrow> call list \<Rightarrow> resolved outcome \<times> call list"
where
  "checkImageWrite dc b calls =
     (case readImage dc b calls of
        (Resolved readImage', calls') \<Rightarrow>
          (case js_length readImage' of
             None \<Rightarrow> (Resolved (Bundle b), calls')
           | Some readImageLength \<Rightarrow>
               (case firmwareImage b of
                  None \<Rightarrow> (if readImageLength = 0 then Resolved (Bundle b) else Pending, calls')
                | Some bundleImage \<Rightarrow>
                    (case find (\<lambda>i. map_option unat (index_js bundleImage i) \<noteq> js_at readImage' i)
                            [0..<readImageLength] of
                       None \<Rightarrow> (Resolved (Bundle b), calls')
                     | Some i \<Rightarrow>
                         (Rejected (Error (''Unexpected image data at '' @ string_of_nat i)), calls'))))
      | (other, calls') \<Rightarrow> (other, calls'))"

section \<open>readFirmwareFile\<close>

text \<open>
  \<open>buf.readUInt16BE(offset)\<close> and \<open>buf.readFloatBE(offset)\<close> throw a \<open>RangeError\<close> like
  \<open>readUInt32BE\<close>. The float is kept as its 32 bits; the string that \<open>toFixed(4)\<close> makes of
  it is floating-point formatting and comes from a parameter \<open>toFixed4\<close>.
\<close>

definition readUInt16BE :: "buffer \<Rightarrow> nat \<Rightarrow> js_error + nat" where
  "readUInt16BE buf offset =
     (if offset + 2 \<le> length buf
      then Inr (unat (buf ! offset) * 2 ^ 8 + unat (buf ! (offset + 1)))
      else Inl RangeError)"

definition readFloatBE :: "buffer \<Rightarrow> nat \<Rightarrow> js_error + nat" where
  "readFloatBE buf offset =
     (if offset + 4 \<le> length buf then Inr (uint32BE buf offset) else Inl RangeError)"

text \<open>Evaluation in order: the first exception ends it.\<close>

definition thenE :: "'e + 'a \<Rightarrow> ('a \<Rightarrow> 'e + 'b) \<Rightarrow> 'e + 'b" where
  "thenE r f = (case r of Inl e \<Rightarrow> Inl e | Inr x \<Rightarrow> f x)"

text \<open>The object literal \<open>imageInformation\<close>, its fields evaluated in the order written.\<close>

definition parseImageInformation ::
  "header_const \<Rightarrow> (nat \<Rightarrow> string) \<Rightarrow> buffer \<Rightarrow> js_error + image_information"
where
  "parseImageInformation hc toFixed4 imageFile =
     thenE (readUInt32BE imageFile (HEADER_CODE hc)) (\<lambda>f1.
     thenE (readUInt32BE imageFile (HEADER_TARGET hc)) (\<lambda>f2.
     thenE (readFloatBE imageFile (HEADER_VERSION hc)) (\<lambda>f3.
     thenE (readFloatBE imageFile (HEADER_REQ_LJSU hc)) (\<lambda>f4.
     thenE (readUInt16BE imageFile (HEADER_IMAGE_NUM hc)) (\<lambda>f5.
     thenE (readUInt16BE imageFile (HEADER_NUM_IMAGES hc)) (\<lambda>f6.
     thenE (readUInt32BE imageFile (HEADER_NEXT_IMG hc)) (\<lambda>f7.
     thenE (readUInt32BE imageFile (HEADER_IMG_LEN hc)) (\<lambda>f8.
     thenE (readUInt32BE imageFile (HEADER_IMG_OFFSET hc)) (\<lambda>f9.
     thenE (readUInt32BE imageFile (HEADER_SHA_BYTE_COUNT hc)) (\<lambda>f10.
     thenE (readUInt32BE imageFile 72) (\<lambda>f11.
     thenE (readUInt32BE imageFile (HEADER_ENC_SHA1 hc)) (\<lambda>f12.
     thenE (readUInt32BE imageFile (HEADER_SHA1 hc)) (\<lambda>f13.
     thenE (readUInt32BE imageFile (HEADER_CHECKSUM hc)) (\<lambda>f14.
       Inr \<lparr>rawImageInfo = take 128 imageFile,
            headerCode = f1,
            intendedDevice = f2,
            containedVersion = toFixed4 f3,
            requiredUpgraderVersion = toFixed4 f4,
            imageNumber = f5,
            numImgInFile = f6,
            startNextImg = f7,
            lenOfImg = f8,
            imgOffset = f9,
            numBytesInSHA = f10,
            options = f11,
            encryptedSHA = f12,
            unencryptedSHA = f13,
            headerChecksum = f14\<rparr>))))))))))))))"

text \<open>
  \<open>fs.readFile\<close> is a parameter \<open>fs\<close>: for a path, the error or the contents it hands to the
  callback. The callback never looks at \<open>err\<close>: on an error \<open>data\<close> is \<open>undefined\<close> and
  \<open>new Buffer(data)\<close> throws a \<open>TypeError\<close> inside the callback, as does a read beyond a
  short file (a \<open>RangeError\<close>); the deferred is then never settled. The version is
  \<open>Number(fileSrc.split('_')[1]) / 10000\<close>.
\<close>

definition readFirmwareFile ::
  "header_const \<Rightarrow> (nat \<Rightarrow> string) \<Rightarrow> (string \<Rightarrow> js_error + buffer) \<Rightarrow> string \<Rightarrow> resolved outcome"
where
  "readFirmwareFile hc toFixed4 fs fileSrc =
     (case fs fileSrc of
        Inl err \<Rightarrow> Threw TypeError
      | Inr data \<Rightarrow>
          (case parseImageInformation hc toFixed4 data of
             Inl e \<Rightarrow> Threw e
           | Inr imageInformation \<Rightarrow>
               (let versionStr = index_js (split_js CHR ''_'' fileSrc) 1
                in Resolved (Bundle (DeviceFirmwareBundle
                     \<lparr>firmwareImageInformation := Some imageInformation,
                      firmwareImage := Some (drop 128 data),
                      version := Some (divide_by (Number versionStr) 10000)\<rparr>)))))"

section \<open>Auxiliary definitions for the statements\<close>

text \<open>The big-endian words of a buffer: \<open>k\<close> of them from byte \<open>offset\<close> on.\<close>

definition words_at :: "buffer \<Rightarrow> nat \<Rightarrow> nat \<Rightarrow> nat list" where
  "words_at buf k offset = map (\<lambda>i. uint32BE buf (i * 4 + offset)) [0..<k]"

text \<open>
  The executions that \<open>createFlashOperation\<close> builds when no read of the data fails, in
  closed form: the full chunks, then the tail chunk.
\<close>

definition chunk_plan ::
  "driver_const \<Rightarrow> nat \<Rightarrow> nat \<Rightarrow> nat \<Rightarrow> nat \<Rightarrow> nat \<Rightarrow> bool \<Rightarrow> nat option \<Rightarrow> buffer \<Rightarrow> call list"
where
  "chunk_plan dc startAddress len sz ptr flash isReadOp key data =
     map (\<lambda>i. createExecution dc key isReadOp ptr flash (startAddress + i * (sz * 4)) sz
                (if isReadOp then [] else words_at data 8 (32 * i)))
       [0..<len div sz]
     @ (if 0 < len mod sz
        then [createExecution dc key isReadOp ptr flash (startAddress + len div sz * (sz * 4))
                (len mod sz)
                (if isReadOp then [] else words_at data (len mod sz) (32 * (len div sz)))]
        else [])"

text \<open>
  An example table of constants and an example device for running the definitions: the
  device answers every call, and every word it reads from flash is 0.
\<close>

definition example_const :: driver_const where
  "example_const =
     \<lparr>T7_TARGET_OLD = 100017001, T7_TARGET = 100007001, T7_HEAD_FIRST_FOUR_BYTES = 1279936088,
      T7_MA_EXF_KEY = 61800, T7_MA_EXF_ERASE = 61820, T7_MA_EXF_pREAD = 61810,
      T7_MA_EXF_READ = 61812, T7_MA_EXF_pWRITE = 61830, T7_MA_EXF_WRITE = 61832,
      T7_FLASH_PAGE_SIZE = 4096, T7_FLASH_BLOCK_WRITE_SIZE = 8, T7_IMG_FLASH_PAGE_ERASE = 120,
      T7_HDR_FLASH_PAGE_ERASE = 1, T7_EFAdd_ExtFirmwareImage = 3145728,
      T7_EFkey_ExtFirmwareImage = 1695040352, T7_EFAdd_ExtFirmwareImgInfo = 3637248,
      T7_EFkey_ExtFirmwareImgInfo = 3288768310\<rparr>"

definition zero_device :: device where
  "zero_device h c =
     (case c of
        WriteMany as vs \<Rightarrow> OnSuccess []
      | RwMany as ds ns vs \<Rightarrow> OnSuccess (if LJM_READ \<in> set ds then replicate (last ns) 0 else []))"

definition zero_bundle :: firmware_bundle where
  "zero_bundle = DeviceFirmwareBundle\<lparr>device := Some zero_device\<rparr>"



definition zero_file :: buffer where
  "zero_file = replicate 128 0"

definition data16 :: buffer where
  "data16 = [0, 0, 0, 0, 0, 0, 0, 1, 0, 0, 0, 2, 0, 0, 0, 3]"

definition data64 :: buffer where
  "data64 =
     [0, 0, 0, 0, 0, 0, 0, 1, 0, 0, 0, 2, 0, 0, 0, 3, 0, 0, 0, 4, 0, 0, 0, 5, 0, 0, 0,
      6, 0, 0, 0, 7, 0, 0, 0, 8, 0, 0, 0, 9, 0, 0, 0, 10, 0, 0, 0, 11, 0, 0, 0, 12, 0,
      0, 0, 13, 0, 0, 0, 14, 0, 0, 0, 15]"

text \<open>
  An example bundle with an image of four bytes on the example device, and an example
  bundle as \<open>readFirmwareFile\<close> would leave it for a compatible image of version 1.0067.
\<close>

definition deadbeef_bundle :: firmware_bundle where
  "deadbeef_bundle = zero_bundle\<lparr>firmwareImage := Some [222, 173, 190, 239]\<rparr>"

definition example_info :: image_information where
  "example_info =
     \<lparr>rawImageInfo = zero_file, headerCode = 1279936088, intendedDevice = 100007001,
      containedVersion = ''1.0067'', requiredUpgraderVersion = ''0.0000'', imageNumber = 0,
      numImgInFile = 1, startNextImg = 0, lenOfImg = 0, imgOffset = 128, numBytesInSHA = 0,
      options = 0, encryptedSHA = 0, unencryptedSHA = 0, headerChecksum = 0\<rparr>"

definition example_bundle :: firmware_bundle where
  "example_bundle =
     DeviceFirmwareBundle
       \<lparr>firmwareImageInformation := Some example_info, version := Some (Finite (10067 / 10000))\<rparr>"

section \<open>Lemmas on the flash operation engine\<close>

lemma upt_0_Suc_map: "[0..<Suc n] = 0 # map Suc [0..<n]"
  by (simp add: upt_conv_Cons map_Suc_upt del: upt_Suc)

lemma full_chunks_read:
  "full_chunks exec True data sz n a off =
     Inr (map (\<lambda>i. exec (a + i * (sz * 4)) sz []) [0..<n], a + n * (sz * 4), off + 32 * n)"
proof (induction n arbitrary: a off)
  case 0
  show ?case by simp
next
  case (Suc n)
  show ?case
    by (simp add: Suc.IH upt_0_Suc_map comp_def algebra_simps del: upt_Suc)
qed

lemma collect_map_Inr: "collect (map (\<lambda>i. Inr (f i)) xs) = Inr (map f xs)"
  by (induction xs) simp_all

lemma collect_Inl: "Inl e \<in> set rs \<Longrightarrow> \<exists>e'. collect rs = Inl e'"
proof (induction rs rule: collect.induct)
  case 1
  then show ?case by simp
next
  case (2 e' rs)
  then show ?case by simp
next
  case (3 x rs)
  then show ?case by (auto split: sum.splits)
qed

lemma getdata_ok:
  assumes "k = 0 \<or> offset + 4 * k \<le> length buf"
  shows "getdata buf k offset = Inr (words_at buf k offset)"
proof -
  have "map (\<lambda>i. readUInt32BE buf (i * 4 + offset)) [0..<k]
        = map (\<lambda>i. Inr (uint32BE buf (i * 4 + offset))) [0..<k]"
    using assms by (intro map_cong refl) (auto simp: readUInt32BE_def)
  then show ?thesis
    unfolding getdata_def words_at_def by (simp only: collect_map_Inr)
qed


lemma full_chunks_write:
  assumes "n = 0 \<or> off + 32 * n \<le> length data"
  shows "full_chunks exec False data sz n a off =
     Inr (map (\<lambda>i. exec (a + i * (sz * 4)) sz (words_at data 8 (off + 32 * i))) [0..<n],
          a + n * (sz * 4), off + 32 * n)"
  using assms
proof (induction n arbitrary: a off)
  case 0
  show ?case by simp
next
  case (Suc n)
  have g: "getdata data 8 off = Inr (words_at data 8 off)"
    using Suc.prems by (intro getdata_ok) simp
  have "n = 0 \<or> (off + 32) + 32 * n \<le> length data"
    using Suc.prems by simp
  from Suc.IH [OF this] show ?case
    by (simp add: g upt_0_Suc_map comp_def algebra_simps del: upt_Suc)
qed

lemma reduce_acks:
  assumes "\<forall>h c. \<exists>vs. dev h c = OnSuccess vs"
  shows "\<exists>m. reduce dev calls memo ops = (Inr m, calls @ ops)"
proof (induction ops arbitrary: calls memo)
  case Nil
  show ?case by simp
next
  case (Cons c cs)
  from assms obtain vs where "dev calls c = OnSuccess vs" by blast
  with Cons.IH [of "calls @ [c]" "memo @ vs"] show ?case by simp
qed



lemma executeOperations_ok:
  assumes "isReadOp \<or> 32 * (len div sz) + 4 * (len mod sz) \<le> length data"
  shows "executeOperations dc startAddress len sz ptr flash isReadOp key data
         = Inr (chunk_plan dc startAddress len sz ptr flash isReadOp key data)"
proof (cases isReadOp)
  case True
  then show ?thesis
    by (simp add: executeOperations_def chunk_plan_def full_chunks_read Let_def)
next
  case False
  with assms have d: "32 * (len div sz) + 4 * (len mod sz) \<le> length data" by simp
  then have "len div sz = 0 \<or> 0 + 32 * (len div sz) \<le> length data" by simp
  note fc = full_chunks_write [OF this]
  have "len mod sz = 0 \<or> 32 * (len div sz) + 4 * (len mod sz) \<le> length data"
    using d by simp
  note gd = getdata_ok [OF this]
  show ?thesis
    using False by (simp add: executeOperations_def chunk_plan_def fc gd Let_def)
qed

lemma ceil_div:
  assumes "0 < (sz::nat)"
  shows "(len + sz - 1) div sz = len div sz + (if len mod sz = 0 then 0 else 1)"
proof -
  define q r where qr: "q = len div sz" "r = len mod sz"
  then have len: "len = sz * q + r" and r: "r < sz" using assms by simp_all
  show ?thesis
  proof (cases "r = 0")
    case True
    have "(len + sz - 1) div sz = q"
    proof (rule div_nat_eqI)
      show "sz * q \<le> len + sz - 1" using len True assms by simp
      show "len + sz - 1 < sz * Suc q" using len True assms by simp
    qed
    then show ?thesis using True qr by simp
  next
    case False
    have "(len + sz - 1) div sz = Suc q"
    proof (rule div_nat_eqI)
      show "sz * Suc q \<le> len + sz - 1" using len False by simp
      show "len + sz - 1 < sz * Suc (Suc q)" using len r False by simp
    qed
    then show ?thesis using False qr by simp
  qed
qed

lemma length_chunk_plan:
  "0 < sz \<Longrightarrow> length (chunk_plan dc startAddress len sz ptr flash isReadOp key data)
     = (len + sz - 1) div sz"
  using ceil_div [of sz len] by (simp add: chunk_plan_def)

lemma createFlashOperation_acked:
  assumes sz: "0 < sz"
    and dev: "device b = Some dev" "\<forall>h c. \<exists>vs. dev h c = OnSuccess vs"
    and data: "isReadOp \<or> 32 * (len div sz) + 4 * (len mod sz) \<le> length data"
  shows "createFlashOperation dc b startAddress len sz ptr flash isReadOp key data calls
         = (Resolved (Bundle b),
            calls @ chunk_plan dc startAddress len sz ptr flash isReadOp key data)"
proof -
  let ?ops = "chunk_plan dc startAddress len sz ptr flash isReadOp key data"
  from reduce_acks [OF dev(2)] obtain m where m: "reduce dev calls [] ?ops = (Inr m, calls @ ?ops)"
    by blast
  show ?thesis
    using sz by (simp add: createFlashOperation_def executeOperations_ok [OF data] dev(1) m)
qed

text \<open>
  What holds of the chunking: on a device that acknowledges every transaction, and for a
  write with a data buffer that the reads of \<open>getdata\<close> stay inside, the engine resolves
  after adding exactly \<open>\<lceil>len / sz\<rceil>\<close> transactions to the log; transaction \<open>i\<close> is the
  execution created for the address \<open>startAddress + i * sz * 4\<close>, the first \<open>\<lfloor>len / sz\<rfloor>\<close>
  with the count \<open>sz\<close> and the tail with the count \<open>len mod sz\<close>.
\<close>

lemma flash_operation_chunking:
  assumes sz: "1 \<le> sz"
    and dev: "device b = Some dev" "\<forall>h c. \<exists>vs. dev h c = OnSuccess vs"
    and data: "isReadOp \<or> 32 * (len div sz) + 4 * (len mod sz) \<le> length data"
  shows "\<exists>ops.
      createFlashOperation dc b startAddress len sz ptr flash isReadOp key data calls
        = (Resolved (Bundle b), calls @ ops)
    \<and> length ops = (len + sz - 1) div sz
    \<and> (\<forall>i < len div sz. \<exists>writeValues.
          ops ! i = createExecution dc key isReadOp ptr flash (startAddress + i * sz * 4) sz writeValues)
    \<and> (len mod sz \<noteq> 0 \<longrightarrow> (\<exists>writeValues.
          ops ! (len div sz) = createExecution dc key isReadOp ptr flash
             (startAddress + (len div sz) * sz * 4) (len mod sz) writeValues))"
proof -
  let ?ops = "chunk_plan dc startAddress len sz ptr flash isReadOp key data"
  from sz have sz': "0 < sz" by simp
  have 1: "createFlashOperation dc b startAddress len sz ptr flash isReadOp key data calls
        = (Resolved (Bundle b), calls @ ?ops)"
    by (rule createFlashOperation_acked [OF sz' dev data])
  have 2: "length ?ops = (len + sz - 1) div sz"
    by (rule length_chunk_plan [OF sz'])
  have 3: "\<forall>i < len div sz. \<exists>writeValues.
          ?ops ! i = createExecution dc key isReadOp ptr flash (startAddress + i * sz * 4) sz writeValues"
    by (auto simp: chunk_plan_def nth_append mult.assoc)
  have 4: "len mod sz \<noteq> 0 \<longrightarrow> (\<exists>writeValues.
          ?ops ! (len div sz) = createExecution dc key isReadOp ptr flash
             (startAddress + (len div sz) * sz * 4) (len mod sz) writeValues)"
    by (auto simp: chunk_plan_def nth_append mult.assoc)
  from 1 2 3 4 show ?thesis by blast
qed

lemma zero_device_acks: "\<forall>h c. \<exists>vs. zero_device h c = OnSuccess vs"
  by (simp add: zero_device_def split: call.split)

lemma device_zero_bundle: "device zero_bundle = Some zero_device"
  by (simp add: zero_bundle_def DeviceFirmwareBundle_def)





lemma issued_writeFlash_acked:
  assumes "0 < sz" "device b = Some dev" "\<forall>h c. \<exists>vs. dev h c = OnSuccess vs"
    and "32 * (len div sz) + 4 * (len mod sz) \<le> length data"
  shows "issued (writeFlash dc b startAddress len sz key data) calls
         = chunk_plan dc startAddress len sz (T7_MA_EXF_pWRITE dc) (T7_MA_EXF_WRITE dc) False key data"
proof -
  have d: "False \<or> 32 * (len div sz) + 4 * (len mod sz) \<le> length data" using assms(4) by simp
  from createFlashOperation_acked [OF assms(1-3) d, of dc startAddress
      "T7_MA_EXF_pWRITE dc" "T7_MA_EXF_WRITE dc" key calls]
  show ?thesis by (simp add: issued_def writeFlash_def)
qed



lemma d42: "(4::nat) div 2 = 2" "(4::nat) mod 2 = 0" by simp_all

lemma words_at_data64_0: "words_at data64 8 0 = [0, 1, 2, 3, 4, 5, 6, 7]"
  by (simp add: words_at_def uint32BE_def data64_def upt_rec)

lemma words_at_data64_32: "words_at data64 8 32 = [8, 9, 10, 11, 12, 13, 14, 15]"
  by (simp add: words_at_def uint32BE_def data64_def upt_rec)

lemma issued_write_example:
  "issued (writeFlash example_const zero_bundle 0 4 2 (Some 5) data64) []
     = [RwMany [61800, 61830, 61832] [LJM_WRITE, LJM_WRITE, LJM_WRITE] [1, 1, 2]
          [Some 5, Some 0, Some 0, Some 1, Some 2, Some 3, Some 4, Some 5, Some 6, Some 7],
        RwMany [61800, 61830, 61832] [LJM_WRITE, LJM_WRITE, LJM_WRITE] [1, 1, 2]
          [Some 5, Some 8, Some 8, Some 9, Some 10, Some 11, Some 12, Some 13, Some 14, Some 15]]"
proof -
  have sz: "0 < (2::nat)" by simp
  have len: "32 * (4 div 2) + 4 * (4 mod 2) \<le> length data64" by (simp add: data64_def)
  show ?thesis
    unfolding issued_writeFlash_acked [OF sz device_zero_bundle zero_device_acks len]
    by (simp add: chunk_plan_def d42 createExecution_def example_const_def upt_rec
          words_at_data64_0 words_at_data64_32)
qed

lemma getdata_data16: "getdata data16 8 0 = Inl RangeError"
  by (simp add: getdata_def data16_def readUInt32BE_def upt_rec)

lemma full_chunks_first_fails:
  "getdata data 8 off = Inl e \<Longrightarrow> 0 < n \<Longrightarrow> full_chunks exec False data sz n a off = Inl e"
  by (cases n) simp_all

section \<open>Lemmas on the readers and the checks\<close>

lemma readFlash_acked:
  assumes "0 < sz" "device b = Some dev" "\<forall>h c. \<exists>vs. dev h c = OnSuccess vs"
  shows "fst (readFlash dc b startAddress len sz calls) = Resolved (Bundle b)"
  using createFlashOperation_acked [OF assms, of True len "[]" dc startAddress
      "T7_MA_EXF_pREAD dc" "T7_MA_EXF_READ dc" None calls]
  by (simp add: readFlash_def)

lemma readImage_acked:
  assumes "0 < T7_FLASH_BLOCK_WRITE_SIZE dc" "device b = Some dev"
    "\<forall>h c. \<exists>vs. dev h c = OnSuccess vs"
  shows "fst (readImage dc b calls) = Resolved (Bundle b)"
proof -
  obtain calls' where "readFlash dc b (T7_EFAdd_ExtFirmwareImage dc)
      (T7_IMG_FLASH_PAGE_ERASE dc * T7_FLASH_PAGE_SIZE dc div 4)
      (T7_FLASH_BLOCK_WRITE_SIZE dc) calls = (Resolved (Bundle b), calls')"
    using readFlash_acked [OF assms, of dc "T7_EFAdd_ExtFirmwareImage dc"
      "T7_IMG_FLASH_PAGE_ERASE dc * T7_FLASH_PAGE_SIZE dc div 4" calls]
    by (metis prod.collapse)
  then show ?thesis by (simp add: readImage_def)
qed

lemma readImageInformation_acked:
  assumes "0 < T7_FLASH_BLOCK_WRITE_SIZE dc" "device b = Some dev"
    "\<forall>h c. \<exists>vs. dev h c = OnSuccess vs"
  shows "fst (readImageInformation dc b calls) = Resolved (Bundle b)"
proof -
  obtain calls' where "readFlash dc b (T7_EFAdd_ExtFirmwareImgInfo dc)
      (T7_HDR_FLASH_PAGE_ERASE dc * T7_FLASH_PAGE_SIZE dc div 4)
      (T7_FLASH_BLOCK_WRITE_SIZE dc) calls = (Resolved (Bundle b), calls')"
    using readFlash_acked [OF assms, of dc "T7_EFAdd_ExtFirmwareImgInfo dc"
      "T7_HDR_FLASH_PAGE_ERASE dc * T7_FLASH_PAGE_SIZE dc div 4" calls]
    by (metis prod.collapse)
  then show ?thesis by (simp add: readImageInformation_def)
qed

lemma isAllZeroed_Bundle: "isAllZeroed (Bundle b)"
  by (simp add: isAllZeroed_def js_length_def)

lemma checkErase_acked:
  assumes "0 < T7_FLASH_BLOCK_WRITE_SIZE dc" "device b = Some dev"
    "\<forall>h c. \<exists>vs. dev h c = OnSuccess vs"
  shows "fst (checkErase dc b calls) = Resolved (Bundle b)"
proof -
  obtain calls1 where 1: "readImageInformation dc b calls = (Resolved (Bundle b), calls1)"
    using readImageInformation_acked [OF assms, of calls] by (metis prod.collapse)
  obtain calls2 where 2: "readImage dc b calls1 = (Resolved (Bundle b), calls2)"
    using readImage_acked [OF assms, of calls1] by (metis prod.collapse)
  show ?thesis
    by (simp add: checkErase_def 1 2 isAllZeroed_Bundle)
qed

lemma checkImageWrite_acked:
  assumes "0 < T7_FLASH_BLOCK_WRITE_SIZE dc" "device b = Some dev"
    "\<forall>h c. \<exists>vs. dev h c = OnSuccess vs"
  shows "fst (checkImageWrite dc b calls) = Resolved (Bundle b)"
proof -
  obtain calls1 where 1: "readImage dc b calls = (Resolved (Bundle b), calls1)"
    using readImage_acked [OF assms, of calls] by (metis prod.collapse)
  show ?thesis
    by (simp add: checkImageWrite_def 1 js_length_def)
qed

lemma block_example: "0 < T7_FLASH_BLOCK_WRITE_SIZE example_const"
  by (simp add: example_const_def)

lemma replicate_8: "replicate 8 x = [x, x, x, x, x, x, x, x]"
  by (simp add: eval_nat_numeral)

lemma device_deadbeef_bundle: "device deadbeef_bundle = Some zero_device"
  by (simp add: deadbeef_bundle_def device_zero_bundle)

section \<open>Lemmas on the version in the file name\<close>















lemma version_1_0067: "string_loose_eq ''1.0067'' (Some (Finite (10067 / 10000)))"
  by code_simp

lemma version_1_0068: "\<not> string_loose_eq ''1.0067'' (Some (Finite (10068 / 10000)))"
  by code_simp

section \<open>The claims\<close>

text \<open>
  C1 (the code departs from the claim). \<open>checkErase\<close> is handed the bundle, not the words
  read back, by \<open>readImageInformation\<close> and \<open>readImage\<close>; \<open>isAllZeroed\<close> of a bundle is
  true, and the outcome of the header check is dropped. On the example device, whose flash
  reads 0 in every word (its answer to the first chunk of the header read is eight
  zeros), \<open>checkErase\<close> resolves.
\<close>

theorem checkErase_passes_on_zero_flash:
  "zero_device [] (RwMany [61810, 61812] [LJM_WRITE, LJM_READ] [1, 8]
       [Some 3637248, None, None, None, None, None, None, None, None])
     = OnSuccess [0, 0, 0, 0, 0, 0, 0, 0]
   \<and> fst (checkErase example_const zero_bundle []) = Resolved (Bundle zero_bundle)"
proof -
  have "fst (checkErase example_const zero_bundle []) = Resolved (Bundle zero_bundle)"
    by (rule checkErase_acked [OF block_example device_zero_bundle zero_device_acks])
  then show ?thesis by (simp add: zero_device_def replicate_8)
qed

text \<open>
  C2 (the code departs from the claim). \<open>readFlash\<close> never resolves with a sequence of
  words: the final callback of \<open>createFlashOperation\<close> resolves with the bundle and drops
  the memory it accumulated. For no input at all is the result \<open>Resolved (Memory ws)\<close>, and
  reading 3 words in chunks of 2 from the example device resolves with the bundle.
\<close>

theorem readFlash_resolves_with_bundle:
  "fst (readFlash dc b startAddress len sz calls) \<noteq> Resolved (Memory ws)
   \<and> fst (readFlash example_const zero_bundle 0 3 2 []) = Resolved (Bundle zero_bundle)"
proof -
  have 1: "fst (readFlash dc b startAddress len sz calls) \<noteq> Resolved (Memory ws)"
    by (simp add: readFlash_def createFlashOperation_def split: sum.splits option.splits prod.splits)
  have sz: "0 < (2::nat)" by simp
  have 2: "fst (readFlash example_const zero_bundle 0 3 2 []) = Resolved (Bundle zero_bundle)"
    by (rule readFlash_acked [OF sz device_zero_bundle zero_device_acks])
  from 1 2 show ?thesis by simp
qed

text \<open>
  C3 (the code departs from the claim). A write of 4 words in chunks of 2 from the 16-byte
  buffer that holds exactly these 4 words should take \<open>\<lceil>4 / 2\<rceil> = 2\<close> transactions. The
  loop over the full chunks calls \<open>getdata(data, 8, offset)\<close> whatever the chunk size: the
  first call reads beyond the buffer, \<open>writeFlash\<close> throws while it builds the executions,
  and no transaction is issued, though the device would acknowledge every one.
\<close>

theorem writeFlash_exact_buffer_issues_nothing:
  "length data16 = 4 * 4
   \<and> writeFlash example_const zero_bundle 0 4 2 (Some 5) data16 [] = (Threw RangeError, [])
   \<and> issued (writeFlash example_const zero_bundle 0 4 2 (Some 5) data16) [] = []"
proof -
  have "executeOperations example_const 0 4 2 61830 61832 False (Some 5) data16 = Inl RangeError"
    by (simp add: executeOperations_def d42 full_chunks_first_fails [OF getdata_data16])
  then have "writeFlash example_const zero_bundle 0 4 2 (Some 5) data16 [] = (Threw RangeError, [])"
    by (simp add: writeFlash_def createFlashOperation_def example_const_def)
  then show ?thesis by (simp add: issued_def data16_def)
qed



text \<open>
  C5 (the code departs from the claim). The loop over the full chunks calls
  \<open>getdata(data, 8, offset)\<close> and adds 32 to \<open>offset\<close>, whatever the chunk size. With chunk
  size 2, length 4 and a key, on the 64-byte buffer of the words 0 to 15 the first chunk
  carries the eight words 0 to 7 (not the two words 0, 1 of byte offset 0) and the second
  the eight words 8 to 15 of byte offset 32 (not the words 2, 3 of byte offset 8), both
  with the count 2.
\<close>

theorem writeFlash_chunk_of_two:
  "issued (writeFlash example_const zero_bundle 0 4 2 (Some 5) data64) []
     = [RwMany [61800, 61830, 61832] [LJM_WRITE, LJM_WRITE, LJM_WRITE] [1, 1, 2]
          [Some 5, Some 0, Some 0, Some 1, Some 2, Some 3, Some 4, Some 5, Some 6, Some 7],
        RwMany [61800, 61830, 61832] [LJM_WRITE, LJM_WRITE, LJM_WRITE] [1, 1, 2]
          [Some 5, Some 8, Some 8, Some 9, Some 10, Some 11, Some 12, Some 13, Some 14, Some 15]]"
  by (rule issued_write_example)

text \<open>
  C6. For every bundle that holds image information, \<open>checkCompatibility\<close> resolves (with
  the bundle) if and only if the header code is the T7 constant, the intended device is
  one of the two accepted targets, \<open>T7_TARGET\<close> and \<open>T7_TARGET_OLD\<close>, and the contained
  version equals the firmware version of the bundle under \<open>==\<close>; otherwise it rejects. A
  wrong header code is reported as \<open>Invalid header code.\<close>, else a wrong device as
  \<open>Incorrect device type.\<close>, else a wrong version as \<open>Incorrect version.\<close>, three
  different errors. Whether it resolves, and the error, depend on these three header
  fields and the version only; the function has no access to the device or the log of
  calls.
\<close>

theorem checkCompatibility_gate:
  assumes info: "firmwareImageInformation b = Some info"
  shows "((\<exists>v. checkCompatibility dc b = Resolved v)
          \<longleftrightarrow> headerCode info = T7_HEAD_FIRST_FOUR_BYTES dc
              \<and> (intendedDevice info = T7_TARGET dc \<or> intendedDevice info = T7_TARGET_OLD dc)
              \<and> string_loose_eq (containedVersion info) (version b))
    \<and> (\<forall>v. checkCompatibility dc b = Resolved v \<longrightarrow> v = Bundle b)
    \<and> ((\<exists>v. checkCompatibility dc b = Resolved v) \<or> (\<exists>e. checkCompatibility dc b = Rejected e))
    \<and> (headerCode info \<noteq> T7_HEAD_FIRST_FOUR_BYTES dc
          \<longrightarrow> checkCompatibility dc b = Rejected (Error ''Invalid header code.''))
    \<and> (headerCode info = T7_HEAD_FIRST_FOUR_BYTES dc
          \<and> intendedDevice info \<noteq> T7_TARGET dc \<and> intendedDevice info \<noteq> T7_TARGET_OLD dc
          \<longrightarrow> checkCompatibility dc b = Rejected (Error ''Incorrect device type.''))
    \<and> (headerCode info = T7_HEAD_FIRST_FOUR_BYTES dc
          \<and> (intendedDevice info = T7_TARGET dc \<or> intendedDevice info = T7_TARGET_OLD dc)
          \<and> \<not> string_loose_eq (containedVersion info) (version b)
          \<longrightarrow> checkCompatibility dc b = Rejected (Error ''Incorrect version.''))
    \<and> Error ''Invalid header code.'' \<noteq> Error ''Incorrect device type.''
    \<and> Error ''Invalid header code.'' \<noteq> Error ''Incorrect version.''
    \<and> Error ''Incorrect device type.'' \<noteq> Error ''Incorrect version.''
    \<and> (\<forall>b' info'. firmwareImageInformation b' = Some info'
          \<and> headerCode info' = headerCode info \<and> intendedDevice info' = intendedDevice info
          \<and> containedVersion info' = containedVersion info \<and> version b' = version b
          \<longrightarrow> map_outcome (\<lambda>v. ()) (checkCompatibility dc b')
              = map_outcome (\<lambda>v. ()) (checkCompatibility dc b))"
  using info
  by (auto simp: checkCompatibility_def ALLOWED_IMAGE_INFO_DEVICE_TYPES_def Let_def)

theorem checkCompatibility_gate_witness:
  "firmwareImageInformation example_bundle = Some example_info
   \<and> (\<exists>v. checkCompatibility example_const example_bundle = Resolved v)
   \<and> checkCompatibility example_const (example_bundle\<lparr>version := Some (Finite (10068 / 10000))\<rparr>)
       = Rejected (Error ''Incorrect version.'')"
proof -
  have info: "firmwareImageInformation example_bundle = Some example_info"
    by (simp add: example_bundle_def DeviceFirmwareBundle_def)
  have info': "firmwareImageInformation (example_bundle\<lparr>version := Some (Finite (10068 / 10000))\<rparr>)
                 = Some example_info"
    by (simp add: example_bundle_def DeviceFirmwareBundle_def)
  have v: "version example_bundle = Some (Finite (10067 / 10000))"
    by (simp add: example_bundle_def DeviceFirmwareBundle_def)
  have f: "headerCode example_info = T7_HEAD_FIRST_FOUR_BYTES example_const"
    "intendedDevice example_info = T7_TARGET example_const"
    "containedVersion example_info = ''1.0067''"
    by (simp_all add: example_info_def example_const_def)
  from checkCompatibility_gate [OF info, of example_const]
  have 1: "\<exists>v. checkCompatibility example_const example_bundle = Resolved v"
    using f v version_1_0067 by simp
  from checkCompatibility_gate [OF info', of example_const]
  have 2: "checkCompatibility example_const (example_bundle\<lparr>version := Some (Finite (10068 / 10000))\<rparr>)
       = Rejected (Error ''Incorrect version.'')"
    using f version_1_0068 by simp
  from info 1 2 show ?thesis by simp
qed

text \<open>
  C7 (the code departs from the claim). \<open>checkImageWrite\<close> is handed the bundle by
  \<open>readImage\<close>, so its loop makes no comparison: with the image bytes DE AD BE EF in the
  bundle and a device whose flash reads 0 in every word, it resolves.
\<close>

theorem checkImageWrite_passes_on_zero_flash:
  "firmwareImage deadbeef_bundle = Some [222, 173, 190, 239]
   \<and> fst (checkImageWrite example_const deadbeef_bundle []) = Resolved (Bundle deadbeef_bundle)"
proof -
  have "fst (checkImageWrite example_const deadbeef_bundle []) = Resolved (Bundle deadbeef_bundle)"
    by (rule checkImageWrite_acked [OF block_example device_deadbeef_bundle zero_device_acks])
  then show ?thesis by (simp add: deadbeef_bundle_def)
qed




text \<open>
  C9 (the code departs from the claim). When \<open>fs.readFile\<close> fails, the callback does not look
  at \<open>err\<close>; \<open>new Buffer(undefined)\<close> throws a \<open>TypeError\<close> inside the callback and the
  promise that was returned is never settled: it is not rejected with the I/O error.
\<close>

theorem readFirmwareFile_io_error:
  "readFirmwareFile hc toFixed4 (\<lambda>path. Inl err) fileSrc = Threw TypeError
   \<and> readFirmwareFile hc toFixed4 (\<lambda>path. Inl err) fileSrc \<noteq> Rejected err"
  by (simp add: readFirmwareFile_def)

text \<open>
  C10. \<open>eraseFlash\<close> with \<open>numPages = 0\<close>: \<open>range(0)\<close> is empty, so the series has nothing to
  run; no \<open>writeMany\<close> (no call at all) is issued and the promise resolves with the bundle
  it was given, for every bundle (with or without a device), start address and key.
\<close>

theorem eraseFlash_zero_pages:
  "eraseFlash dc b startAddress 0 key calls = (Resolved (Bundle b), calls)
   \<and> issued (eraseFlash dc b startAddress 0 key) calls = []"
  by (simp add: eraseFlash_def range_js_def issued_def)

end
